theory Spec2Isabelle
  imports Main "HOL-Library.Word"
begin

section \<open>uSTL function objects (ufunction.h)\<close>

text \<open>
  The header defines stateless functors over a value type \<open>T\<close>, and adaptor classes
  that store a callable (and possibly a bound value or a pointer to member) and forward
  the call. A functor type is a C++ template parameter; here the operators of \<open>T\<close>
  that a functor uses are passed as arguments (\<open>lt\<close> for \<open>operator<\<close>, \<open>eq\<close> for
  \<open>operator==\<close>), so a functor can use no operator that it is not given. A stored
  callable is a HOL function, a pointer to data member \<open>VT T::*\<close> is the function that
  reads the member of an instance. The C++ \<open>int\<close> is a 32-bit word, read as two's complement by \<open>sint\<close>.
\<close>

type_synonym cint = "32 word"

subsection \<open>Standard functors\<close>

text \<open>Logical functors on an integral \<open>T\<close>: the operands convert to \<open>bool\<close> (nonzero),
  \<open>&&\<close> or \<open>||\<close> is taken, and the \<open>bool\<close> converts back to \<open>T\<close> on return.\<close>

definition logical_and :: "'a::len word \<Rightarrow> 'a word \<Rightarrow> 'a word" where
  "logical_and a b = of_bool (a \<noteq> 0 \<and> b \<noteq> 0)"

definition logical_or :: "'a::len word \<Rightarrow> 'a word \<Rightarrow> 'a word" where
  "logical_or a b = of_bool (a \<noteq> 0 \<or> b \<noteq> 0)"

definition equal_to :: "('a \<Rightarrow> 'a \<Rightarrow> bool) \<Rightarrow> 'a \<Rightarrow> 'a \<Rightarrow> bool" where
  "equal_to eq a b = eq a b"

definition not_equal_to :: "('a \<Rightarrow> 'a \<Rightarrow> bool) \<Rightarrow> 'a \<Rightarrow> 'a \<Rightarrow> bool" where
  "not_equal_to eq a b = (\<not> eq a b)"

definition greater_f :: "('a \<Rightarrow> 'a \<Rightarrow> bool) \<Rightarrow> 'a \<Rightarrow> 'a \<Rightarrow> bool" where
  "greater_f lt a b = lt b a"

definition less_f :: "('a \<Rightarrow> 'a \<Rightarrow> bool) \<Rightarrow> 'a \<Rightarrow> 'a \<Rightarrow> bool" where
  "less_f lt a b = lt a b"

definition greater_equal :: "('a \<Rightarrow> 'a \<Rightarrow> bool) \<Rightarrow> ('a \<Rightarrow> 'a \<Rightarrow> bool) \<Rightarrow> 'a \<Rightarrow> 'a \<Rightarrow> bool" where
  "greater_equal lt eq a b = (lt b a \<or> eq a b)"

definition less_equal :: "('a \<Rightarrow> 'a \<Rightarrow> bool) \<Rightarrow> ('a \<Rightarrow> 'a \<Rightarrow> bool) \<Rightarrow> 'a \<Rightarrow> 'a \<Rightarrow> bool" where
  "less_equal lt eq a b = (lt a b \<or> eq a b)"

definition compare :: "('a \<Rightarrow> 'a \<Rightarrow> bool) \<Rightarrow> ('a \<Rightarrow> 'a \<Rightarrow> bool) \<Rightarrow> 'a \<Rightarrow> 'a \<Rightarrow> cint" where
  "compare lt eq a b = (if lt a b then - 1 else (if eq a b then 0 else 1))"


subsection \<open>Function pointer wrappers\<close>

record ('arg, 'result) functor1 =
  m_pfn :: "'arg \<Rightarrow> 'result"

record ('arg1, 'arg2, 'result) functor2 =
  m_pfn :: "'arg1 \<Rightarrow> 'arg2 \<Rightarrow> 'result"

definition functor1_call :: "('arg, 'result) functor1 \<Rightarrow> 'arg \<Rightarrow> 'result" where
  "functor1_call self v = functor1.m_pfn self v"

definition functor2_call :: "('arg1, 'arg2, 'result) functor2 \<Rightarrow> 'arg1 \<Rightarrow> 'arg2 \<Rightarrow> 'result" where
  "functor2_call self v1 v2 = functor2.m_pfn self v1 v2"

text \<open>The two overloads of \<open>functor (pfn)\<close>, for a pointer to a function of one and of
  two arguments.\<close>

definition functor_1 :: "('arg \<Rightarrow> 'result) \<Rightarrow> ('arg, 'result) functor1" where
  "functor_1 pfn = \<lparr>functor1.m_pfn = pfn\<rparr>"

definition functor_2 :: "('arg1 \<Rightarrow> 'arg2 \<Rightarrow> 'result) \<Rightarrow> ('arg1, 'arg2, 'result) functor2" where
  "functor_2 pfn = \<lparr>functor2.m_pfn = pfn\<rparr>"

subsection \<open>Negator\<close>

text \<open>The wrapped callable returns \<open>bool\<close>; \<open>operator()\<close> returns \<open>!m_pfn(v)\<close>.\<close>

record ('arg, 'result) unary_negate =
  m_pfn :: "'arg \<Rightarrow> 'result"

definition unary_negate_call :: "('arg, bool) unary_negate \<Rightarrow> 'arg \<Rightarrow> bool" where
  "unary_negate_call self v = (\<not> unary_negate.m_pfn self v)"

definition unary_negator :: "('arg \<Rightarrow> 'result) \<Rightarrow> ('arg, 'result) unary_negate" where
  "unary_negator pfn = \<lparr>unary_negate.m_pfn = pfn\<rparr>"

subsection \<open>Argument binders\<close>

record ('arg1, 'arg2, 'result) binder1st =
  m_pfn :: "'arg1 \<Rightarrow> 'arg2 \<Rightarrow> 'result"
  m_Value :: 'arg1

record ('arg1, 'arg2, 'result) binder2nd =
  m_pfn :: "'arg1 \<Rightarrow> 'arg2 \<Rightarrow> 'result"
  m_Value :: 'arg2

definition binder1st_call :: "('arg1, 'arg2, 'result) binder1st \<Rightarrow> 'arg2 \<Rightarrow> 'result" where
  "binder1st_call self v2 = binder1st.m_pfn self (binder1st.m_Value self) v2"

definition binder2nd_call :: "('arg1, 'arg2, 'result) binder2nd \<Rightarrow> 'arg1 \<Rightarrow> 'result" where
  "binder2nd_call self v1 = binder2nd.m_pfn self v1 (binder2nd.m_Value self)"

definition bind1st :: "('arg1 \<Rightarrow> 'arg2 \<Rightarrow> 'result) \<Rightarrow> 'arg1 \<Rightarrow> ('arg1, 'arg2, 'result) binder1st" where
  "bind1st pfn v = \<lparr>binder1st.m_pfn = pfn, m_Value = v\<rparr>"

definition bind2nd :: "('arg1 \<Rightarrow> 'arg2 \<Rightarrow> 'result) \<Rightarrow> 'arg2 \<Rightarrow> ('arg1, 'arg2, 'result) binder2nd" where
  "bind2nd pfn v = \<lparr>binder2nd.m_pfn = pfn, m_Value = v\<rparr>"

subsection \<open>Member variable adaptors\<close>

text \<open>
  \<open>m_pv\<close> is the pointer to member, \<open>p.*m_pv\<close> its application to the instance. The
  adaptors assign through no reference, so an instance passed by reference is the
  value it refers to; what separates the \<open>const\<close> from the non-\<open>const\<close> classes is
  their parameter types, recorded in the class table below.
\<close>

record ('t, 'vt, 'result) mem_var1_t =
  m_pv :: "'t \<Rightarrow> 'vt"
  m_pfn :: "'vt \<Rightarrow> 'result"

record ('t, 'vt, 'result) const_mem_var1_t =
  m_pv :: "'t \<Rightarrow> 'vt"
  m_pfn :: "'vt \<Rightarrow> 'result"

record ('t, 'vt, 'result) mem_var2_t =
  m_pv :: "'t \<Rightarrow> 'vt"
  m_pfn :: "'vt \<Rightarrow> 'vt \<Rightarrow> 'result"

record ('t, 'vt, 'result) const_mem_var2_t =
  m_pv :: "'t \<Rightarrow> 'vt"
  m_pfn :: "'vt \<Rightarrow> 'vt \<Rightarrow> 'result"

definition mem_var1_t_call :: "('t, 'vt, 'result) mem_var1_t \<Rightarrow> 't \<Rightarrow> 'result" where
  "mem_var1_t_call self p = mem_var1_t.m_pfn self (mem_var1_t.m_pv self p)"

definition const_mem_var1_t_call :: "('t, 'vt, 'result) const_mem_var1_t \<Rightarrow> 't \<Rightarrow> 'result" where
  "const_mem_var1_t_call self p = const_mem_var1_t.m_pfn self (const_mem_var1_t.m_pv self p)"

definition mem_var2_t_call :: "('t, 'vt, 'result) mem_var2_t \<Rightarrow> 't \<Rightarrow> 't \<Rightarrow> 'result" where
  "mem_var2_t_call self p1 p2 =
     mem_var2_t.m_pfn self (mem_var2_t.m_pv self p1) (mem_var2_t.m_pv self p2)"

definition const_mem_var2_t_call :: "('t, 'vt, 'result) const_mem_var2_t \<Rightarrow> 't \<Rightarrow> 't \<Rightarrow> 'result" where
  "const_mem_var2_t_call self p1 p2 =
     const_mem_var2_t.m_pfn self (const_mem_var2_t.m_pv self p1) (const_mem_var2_t.m_pv self p2)"

definition mem_var1 :: "('t \<Rightarrow> 'vt) \<Rightarrow> ('vt \<Rightarrow> 'result) \<Rightarrow> ('t, 'vt, 'result) mem_var1_t" where
  "mem_var1 mvp pfn = \<lparr>mem_var1_t.m_pv = mvp, m_pfn = pfn\<rparr>"

definition const_mem_var1 :: "('t \<Rightarrow> 'vt) \<Rightarrow> ('vt \<Rightarrow> 'result) \<Rightarrow> ('t, 'vt, 'result) const_mem_var1_t" where
  "const_mem_var1 mvp pfn = \<lparr>const_mem_var1_t.m_pv = mvp, m_pfn = pfn\<rparr>"

definition mem_var2 :: "('t \<Rightarrow> 'vt) \<Rightarrow> ('vt \<Rightarrow> 'vt \<Rightarrow> 'result) \<Rightarrow> ('t, 'vt, 'result) mem_var2_t" where
  "mem_var2 mvp pfn = \<lparr>mem_var2_t.m_pv = mvp, m_pfn = pfn\<rparr>"

definition const_mem_var2 :: "('t \<Rightarrow> 'vt) \<Rightarrow> ('vt \<Rightarrow> 'vt \<Rightarrow> 'result) \<Rightarrow> ('t, 'vt, 'result) const_mem_var2_t" where
  "const_mem_var2 mvp pfn = \<lparr>const_mem_var2_t.m_pv = mvp, m_pfn = pfn\<rparr>"

text \<open>
  The convenience compositions. The source overloads each name: with a fixed value
  \<open>v\<close> (a one-argument adaptor over \<open>binder2nd\<close>) and without (a two-argument adaptor,
  here with the suffix \<open>_2\<close>). A functor object stored in another adaptor is stored
  as its call.
\<close>

definition mem_var_equal_to ::
  "('vt \<Rightarrow> 'vt \<Rightarrow> bool) \<Rightarrow> ('t \<Rightarrow> 'vt) \<Rightarrow> 'vt \<Rightarrow> ('t, 'vt, bool) const_mem_var1_t" where
  "mem_var_equal_to eq mvp v =
     \<lparr>const_mem_var1_t.m_pv = mvp, m_pfn = binder2nd_call (bind2nd (equal_to eq) v)\<rparr>"

definition mem_var_less ::
  "('vt \<Rightarrow> 'vt \<Rightarrow> bool) \<Rightarrow> ('t \<Rightarrow> 'vt) \<Rightarrow> 'vt \<Rightarrow> ('t, 'vt, bool) const_mem_var1_t" where
  "mem_var_less lt mvp v =
     \<lparr>const_mem_var1_t.m_pv = mvp, m_pfn = binder2nd_call (bind2nd (less_f lt) v)\<rparr>"

definition mem_var_equal_to_2 ::
  "('vt \<Rightarrow> 'vt \<Rightarrow> bool) \<Rightarrow> ('t \<Rightarrow> 'vt) \<Rightarrow> ('t, 'vt, bool) const_mem_var2_t" where
  "mem_var_equal_to_2 eq mvp = \<lparr>const_mem_var2_t.m_pv = mvp, m_pfn = equal_to eq\<rparr>"

definition mem_var_less_2 ::
  "('vt \<Rightarrow> 'vt \<Rightarrow> bool) \<Rightarrow> ('t \<Rightarrow> 'vt) \<Rightarrow> ('t, 'vt, bool) const_mem_var2_t" where
  "mem_var_less_2 lt mvp = \<lparr>const_mem_var2_t.m_pv = mvp, m_pfn = less_f lt\<rparr>"

subsection \<open>Member function adaptors\<close>

text \<open>
  An instance pointer \<open>T*\<close> is an address in a store of instances; an address with no
  instance is an invalid pointer, and a call through it is an error. A pointer to a
  member function takes the instance and returns the result; one that is not \<open>const\<close>
  also returns the instance as the call leaves it, and one whose parameter is \<open>V&\<close>
  also the argument as the call leaves it.
\<close>

datatype error = Ill_formed | Invalid_pointer

type_synonym addr = nat

type_synonym 't store = "addr \<Rightarrow> 't option"

text \<open>The classes of \<open>MEM_FUN_T\<close>; \<open>m_pf\<close> is \<open>Ret (T::*)()\<close>, with \<open>const\<close> in the
  two \<open>const\<close> classes.\<close>

record ('t, 'ret) mem_fun_t =
  m_pf :: "'t \<Rightarrow> 'ret \<times> 't"

record ('t, 'ret) const_mem_fun_t =
  m_pf :: "'t \<Rightarrow> 'ret"

record ('t, 'ret) mem_fun_ref_t =
  m_pf :: "'t \<Rightarrow> 'ret \<times> 't"

record ('t, 'ret) const_mem_fun_ref_t =
  m_pf :: "'t \<Rightarrow> 'ret"


definition mem_fun_c :: "('t \<Rightarrow> 'ret) \<Rightarrow> ('t, 'ret) const_mem_fun_t" where
  "mem_fun_c pf = \<lparr>const_mem_fun_t.m_pf = pf\<rparr>"



text \<open>The classes of \<open>EXT_MEM_FUN_T\<close>; \<open>m_t\<close> is the host pointer, \<open>m_pf\<close> is
  \<open>Ret (T::*)(ArgType)\<close>.\<close>

record ('t, 'ret, 'v) ext_mem_fun_t =
  m_t :: addr
  m_pf :: "'v \<Rightarrow> 't \<Rightarrow> 'ret \<times> 't \<times> 'v"

record ('t, 'ret, 'v) ext_mem_funbv_t =
  m_t :: addr
  m_pf :: "'v \<Rightarrow> 't \<Rightarrow> 'ret \<times> 't"

record ('t, 'ret, 'v) const_ext_mem_fun_t =
  m_t :: addr
  m_pf :: "'v \<Rightarrow> 't \<Rightarrow> 'ret"

record ('t, 'ret, 'v) const_ext_mem_funbv_t =
  m_t :: addr
  m_pf :: "'v \<Rightarrow> 't \<Rightarrow> 'ret"





subsection \<open>Calls as steps of a machine\<close>

text \<open>
  The state around a call: the adaptor object, and the \<open>world\<close> that the wrapped
  callable acts on. A call returns an error, or its result and the machine it leaves.

  For the function pointer wrappers, the negator, the binders and the member variable
  adaptors the wrapped callable takes the world and returns an error, or its result
  with the world it leaves (a function that reads or writes a global, a functor that
  calls a member function through a pointer); the adaptor classes above are used at
  the result type \<open>'w \<Rightarrow> error + 'r \<times> 'w\<close>, and what the callable reaches through a
  reference it is passed lies in the world. For the member function adaptors the
  world is the store of the instances.
\<close>

record ('self, 'w) machine =
  object :: 'self
  world :: 'w



definition unary_negate_invoke ::
  "'arg \<Rightarrow> (('arg, 'w \<Rightarrow> error + bool \<times> 'w) unary_negate, 'w) machine
     \<Rightarrow> error + bool \<times> (('arg, 'w \<Rightarrow> error + bool \<times> 'w) unary_negate, 'w) machine" where
  "unary_negate_invoke v s =
     (case unary_negate.m_pfn (object s) v (world s) of
        Inl e \<Rightarrow> Inl e
      | Inr (r, w) \<Rightarrow> Inr (\<not> r, s\<lparr>world := w\<rparr>))"








definition const_mem_fun_t_invoke ::
  "addr \<Rightarrow> (('t, 'ret) const_mem_fun_t, 't store) machine
     \<Rightarrow> error + 'ret \<times> (('t, 'ret) const_mem_fun_t, 't store) machine" where
  "const_mem_fun_t_invoke p s =
     (case world s p of
        None \<Rightarrow> Inl Invalid_pointer
      | Some obj \<Rightarrow> Inr (const_mem_fun_t.m_pf (object s) obj, s))"








text \<open>An adaptor object stored in another adaptor as its callable: the call of the
  object, on the world alone.\<close>

definition callable_of ::
  "('a \<Rightarrow> ('self, 'w) machine \<Rightarrow> error + 'r \<times> ('self, 'w) machine) \<Rightarrow> 'self
     \<Rightarrow> 'a \<Rightarrow> 'w \<Rightarrow> error + 'r \<times> 'w" where
  "callable_of op self a w =
     (case op a \<lparr>object = self, world = w\<rparr> of
        Inl e \<Rightarrow> Inl e
      | Inr (r, s) \<Rightarrow> Inr (r, world s))"



text \<open>
  An input for the member function adaptors, a class whose member function changes
  its object:
  \<open>struct Counter { int n; int add (int d) { n += d; return (n); } };\<close>
  and a store with one \<open>Counter\<close>, at address 0, whose \<open>n\<close> is 0.
\<close>

record Counter =
  Counter_n :: cint



text \<open>Modelled from the spec: the member function \<open>bool isEven() const\<close> of the
  scenario of the method adaptor and its negation, here a member of \<open>Counter\<close>.\<close>

definition Counter_isEven :: "Counter \<Rightarrow> bool" where
  "Counter_isEven c = even (sint (Counter_n c))"

subsection \<open>Example code of the specification\<close>

text \<open>Modelled from the spec: the free function \<open>int square(int n){return n*n;}\<close> and
  the structure \<open>Point{ int x; int y; }\<close> of its concrete scenarios, with the instances
  \<open>p1 = {3,5}\<close> and \<open>p2 = {3,7}\<close>; they are no part of the header.\<close>

definition square :: "cint \<Rightarrow> cint" where
  "square n = n * n"

record Point =
  Point_x :: cint
  Point_y :: cint

definition p1 :: Point where
  "p1 = \<lparr>Point_x = 3, Point_y = 5\<rparr>"

definition p2 :: Point where
  "p2 = \<lparr>Point_x = 3, Point_y = 7\<rparr>"

subsection \<open>Declared signatures: the class table\<close>

text \<open>
  The types that occur in the declarations. A template parameter stands for any of
  them. \<open>const\<close> on a type that is already \<open>const\<close> or a reference, and \<open>&\<close> on a
  reference, change nothing.
\<close>

datatype ty = T_void | T_bool | T_int | Named string | Const ty | Ptr ty | Ref ty

fun add_const :: "ty \<Rightarrow> ty" where
  "add_const (Const t) = Const t"
| "add_const (Ref t) = Ref t"
| "add_const t = Const t"

fun add_ref :: "ty \<Rightarrow> ty" where
  "add_ref (Ref t) = Ref t"
| "add_ref t = Ref t"

definition const_ref :: "ty \<Rightarrow> ty" where
  "const_ref t = add_ref (add_const t)"

text \<open>The three base structures and the member types each one declares; a member type
  that a structure does not declare is \<open>None\<close> (the use does not compile).\<close>

datatype signature_tag =
  void_function ty
| unary_function ty ty
| binary_function ty ty ty

fun argument_type :: "signature_tag \<Rightarrow> ty option" where
  "argument_type (unary_function arg res) = Some arg"
| "argument_type _ = None"

fun first_argument_type :: "signature_tag \<Rightarrow> ty option" where
  "first_argument_type (binary_function arg1 arg2 res) = Some arg1"
| "first_argument_type _ = None"

fun second_argument_type :: "signature_tag \<Rightarrow> ty option" where
  "second_argument_type (binary_function arg1 arg2 res) = Some arg2"
| "second_argument_type _ = None"

fun result_type :: "signature_tag \<Rightarrow> ty" where
  "result_type (void_function res) = res"
| "result_type (unary_function arg res) = res"
| "result_type (binary_function arg1 arg2 res) = res"

text \<open>What a functor class declares: the base structure it inherits, and the
  parameter types, the return type and the \<open>const\<close> qualifier of its \<open>operator()\<close>.\<close>

record functor_sig =
  tag :: signature_tag
  op_params :: "ty list"
  op_result :: ty
  op_const :: bool

text \<open>The shape shared by the standard functors:
  \<open>struct F : binary_function<T,T,R> { R operator()(const T&, const T&) const; }\<close>
  and its one-argument form.\<close>

definition binary_functor :: "ty \<Rightarrow> ty \<Rightarrow> functor_sig" where
  "binary_functor T R =
     \<lparr>tag = binary_function T T R, op_params = [const_ref T, const_ref T],
      op_result = R, op_const = True\<rparr>"

definition unary_functor :: "ty \<Rightarrow> ty \<Rightarrow> functor_sig" where
  "unary_functor T R =
     \<lparr>tag = unary_function T R, op_params = [const_ref T], op_result = R, op_const = True\<rparr>"

text \<open>The two macros that generate the member function adaptors.\<close>

definition MEM_FUN_T :: "ty \<Rightarrow> ty \<Rightarrow> functor_sig" where
  "MEM_FUN_T ArgType Ret =
     \<lparr>tag = unary_function ArgType Ret, op_params = [ArgType], op_result = Ret, op_const = True\<rparr>"

definition EXT_MEM_FUN_T :: "ty \<Rightarrow> ty \<Rightarrow> ty \<Rightarrow> functor_sig" where
  "EXT_MEM_FUN_T ArgType Ret V =
     \<lparr>tag = unary_function V T_void, op_params = [ArgType], op_result = Ret, op_const = True\<rparr>"

text \<open>Every class template of the header, applied to its template arguments. An
  argument that is itself a functor class (\<open>UnaryFunction\<close>, \<open>BinaryFunction\<close>) is
  an instance of this type again.\<close>

datatype functor_class =
  Plus ty | Minus ty | Divides ty | Modulus ty | Multiplies ty
| Logical_and ty | Logical_or ty | Negate ty | Logical_not ty
| Equal_to ty | Not_equal_to ty | Greater ty | Less ty
| Greater_equal ty | Less_equal ty | Compare ty
| Functor1 ty ty
| Functor2 ty ty ty
| Unary_negate functor_class
| Binder1st functor_class
| Binder2nd functor_class
| Mem_fun_t ty ty
| Const_mem_fun_t ty ty
| Mem_fun_ref_t ty ty
| Const_mem_fun_ref_t ty ty
| Ext_mem_fun_t ty ty ty
| Ext_mem_funbv_t ty ty ty
| Const_ext_mem_fun_t ty ty ty
| Const_ext_mem_funbv_t ty ty ty
| Mem_var1_t functor_class ty ty
| Const_mem_var1_t functor_class ty ty
| Mem_var2_t functor_class ty ty
| Const_mem_var2_t functor_class ty ty

text \<open>
  The member type \<open>argument_type\<close> of a class, as a class that wraps it reads it:
  what the inherited base structure declares, or the class's own declaration where
  that adds to the base. The classes repeat the declarations of their base, but for
  \<open>const_mem_var2_t\<close>, which inherits \<open>binary_function\<close> and declares
  \<open>typedef const T& argument_type\<close> itself.
\<close>

definition member_argument_type :: "functor_class \<Rightarrow> signature_tag \<Rightarrow> ty option" where
  "member_argument_type c base =
     (case c of
        Const_mem_var2_t BinaryFunction T VT \<Rightarrow> Some (const_ref T)
      | _ \<Rightarrow> argument_type base)"

fun class_sig :: "functor_class \<Rightarrow> functor_sig option" where
  "class_sig (Plus T) = Some (binary_functor T T)"
| "class_sig (Minus T) = Some (binary_functor T T)"
| "class_sig (Divides T) = Some (binary_functor T T)"
| "class_sig (Modulus T) = Some (binary_functor T T)"
| "class_sig (Multiplies T) = Some (binary_functor T T)"
| "class_sig (Logical_and T) = Some (binary_functor T T)"
| "class_sig (Logical_or T) = Some (binary_functor T T)"
| "class_sig (Negate T) = Some (unary_functor T T)"
| "class_sig (Logical_not T) = Some (unary_functor T T)"
| "class_sig (Equal_to T) = Some (binary_functor T T_bool)"
| "class_sig (Not_equal_to T) = Some (binary_functor T T_bool)"
| "class_sig (Greater T) = Some (binary_functor T T_bool)"
| "class_sig (Less T) = Some (binary_functor T T_bool)"
| "class_sig (Greater_equal T) = Some (binary_functor T T_bool)"
| "class_sig (Less_equal T) = Some (binary_functor T T_bool)"
| "class_sig (Compare T) = Some (binary_functor T T_int)"
| "class_sig (Functor1 Arg Result) =
     Some \<lparr>tag = unary_function Arg Result, op_params = [Arg], op_result = Result,
           op_const = True\<rparr>"
| "class_sig (Functor2 Arg1 Arg2 Result) =
     Some \<lparr>tag = binary_function Arg1 Arg2 Result, op_params = [Arg1, Arg2],
           op_result = Result, op_const = True\<rparr>"
| "class_sig (Unary_negate UnaryFunction) =
     (case class_sig UnaryFunction of
        None \<Rightarrow> None
      | Some f \<Rightarrow>
          (case member_argument_type UnaryFunction (tag f) of
             None \<Rightarrow> None
           | Some arg \<Rightarrow>
               Some \<lparr>tag = unary_function arg (result_type (tag f)),
                     op_params = [const_ref arg], op_result = result_type (tag f),
                     op_const = True\<rparr>))"
| "class_sig (Binder1st BinaryFunction) =
     (case class_sig BinaryFunction of
        None \<Rightarrow> None
      | Some f \<Rightarrow>
          (case (first_argument_type (tag f), second_argument_type (tag f)) of
             (Some arg1_t, Some arg2_t) \<Rightarrow>
               Some \<lparr>tag = unary_function arg2_t (result_type (tag f)),
                     op_params = [const_ref arg2_t], op_result = result_type (tag f),
                     op_const = True\<rparr>
           | _ \<Rightarrow> None))"
| "class_sig (Binder2nd BinaryFunction) =
     (case class_sig BinaryFunction of
        None \<Rightarrow> None
      | Some f \<Rightarrow>
          (case (first_argument_type (tag f), second_argument_type (tag f)) of
             (Some arg1_t, Some arg2_t) \<Rightarrow>
               Some \<lparr>tag = unary_function arg1_t (result_type (tag f)),
                     op_params = [const_ref arg1_t], op_result = result_type (tag f),
                     op_const = True\<rparr>
           | _ \<Rightarrow> None))"
| "class_sig (Mem_fun_t Ret T) = Some (MEM_FUN_T (Ptr T) Ret)"
| "class_sig (Const_mem_fun_t Ret T) = Some (MEM_FUN_T (Ptr (add_const T)) Ret)"
| "class_sig (Mem_fun_ref_t Ret T) = Some (MEM_FUN_T (Ptr T) Ret)"
| "class_sig (Const_mem_fun_ref_t Ret T) = Some (MEM_FUN_T (Ptr (add_const T)) Ret)"
| "class_sig (Ext_mem_fun_t T Ret V) = Some (EXT_MEM_FUN_T (add_ref V) Ret V)"
| "class_sig (Ext_mem_funbv_t T Ret V) = Some (EXT_MEM_FUN_T V Ret V)"
| "class_sig (Const_ext_mem_fun_t T Ret V) = Some (EXT_MEM_FUN_T (const_ref V) Ret V)"
| "class_sig (Const_ext_mem_funbv_t T Ret V) = Some (EXT_MEM_FUN_T V Ret V)"
| "class_sig (Mem_var1_t UnaryFunction T VT) =
     (case class_sig UnaryFunction of
        None \<Rightarrow> None
      | Some f \<Rightarrow>
          Some \<lparr>tag = unary_function (add_ref T) (result_type (tag f)),
                op_params = [add_ref T], op_result = result_type (tag f), op_const = True\<rparr>)"
| "class_sig (Const_mem_var1_t UnaryFunction T VT) =
     (case class_sig UnaryFunction of
        None \<Rightarrow> None
      | Some f \<Rightarrow>
          Some \<lparr>tag = unary_function (const_ref T) (result_type (tag f)),
                op_params = [const_ref T], op_result = result_type (tag f), op_const = True\<rparr>)"
| "class_sig (Mem_var2_t BinaryFunction T VT) =
     (case class_sig BinaryFunction of
        None \<Rightarrow> None
      | Some f \<Rightarrow>
          Some \<lparr>tag = unary_function (add_ref T) (result_type (tag f)),
                op_params = [add_ref T, add_ref T], op_result = result_type (tag f),
                op_const = True\<rparr>)"
| "class_sig (Const_mem_var2_t BinaryFunction T VT) =
     (case class_sig BinaryFunction of
        None \<Rightarrow> None
      | Some f \<Rightarrow>
          Some \<lparr>tag = binary_function (const_ref T) (const_ref T) (result_type (tag f)),
                op_params = [const_ref T, const_ref T], op_result = result_type (tag f),
                op_const = True\<rparr>)"

subsection \<open>Predicates of the specification\<close>

text \<open>
  The compositions as the specification words them: through the factories
  \<open>const_mem_var1\<close> (\<open>member1\<close>), \<open>const_mem_var2\<close> (\<open>member2\<close>) and \<open>bind2nd\<close>
  (\<open>bind_second\<close>), to be compared with \<open>mem_var_equal_to\<close> and \<open>mem_var_less\<close>,
  which call the class constructors.
\<close>

definition member_equal_to_spec ::
  "('vt \<Rightarrow> 'vt \<Rightarrow> bool) \<Rightarrow> ('t \<Rightarrow> 'vt) \<Rightarrow> 'vt \<Rightarrow> ('t, 'vt, bool) const_mem_var1_t" where
  "member_equal_to_spec eq m v = const_mem_var1 m (binder2nd_call (bind2nd (equal_to eq) v))"

definition member_less_spec ::
  "('vt \<Rightarrow> 'vt \<Rightarrow> bool) \<Rightarrow> ('t \<Rightarrow> 'vt) \<Rightarrow> 'vt \<Rightarrow> ('t, 'vt, bool) const_mem_var1_t" where
  "member_less_spec lt m v = const_mem_var1 m (binder2nd_call (bind2nd (less_f lt) v))"

definition member_equal_to_2_spec ::
  "('vt \<Rightarrow> 'vt \<Rightarrow> bool) \<Rightarrow> ('t \<Rightarrow> 'vt) \<Rightarrow> ('t, 'vt, bool) const_mem_var2_t" where
  "member_equal_to_2_spec eq m = const_mem_var2 m (equal_to eq)"

definition member_less_2_spec ::
  "('vt \<Rightarrow> 'vt \<Rightarrow> bool) \<Rightarrow> ('t \<Rightarrow> 'vt) \<Rightarrow> ('t, 'vt, bool) const_mem_var2_t" where
  "member_less_2_spec lt m = const_mem_var2 m (less_f lt)"

text \<open>
  The signature tag invariant: the inherited base structure has as many argument types
  as \<open>operator()\<close> has parameters, each parameter is the declared argument type, taken
  by value or by reference to \<open>const\<close> (as the standard functors take theirs), and the
  declared result type is the return type.
\<close>

fun tag_params :: "signature_tag \<Rightarrow> ty list" where
  "tag_params (void_function res) = []"
| "tag_params (unary_function arg res) = [arg]"
| "tag_params (binary_function arg1 arg2 res) = [arg1, arg2]"

definition passes :: "ty \<Rightarrow> ty \<Rightarrow> bool" where
  "passes declared param = (param = declared \<or> param = const_ref declared)"

definition tag_matches_call :: "functor_sig \<Rightarrow> bool" where
  "tag_matches_call s =
     (list_all2 passes (tag_params (tag s)) (op_params s) \<and> op_result s = result_type (tag s))"

text \<open>
  Mutable access: a parameter that is a reference to a type that is not \<open>const\<close>.
  \<open>member2_adaptors\<close> are the two-argument member variable adaptors that the header
  defines (returned by \<open>mem_var2\<close> and \<open>const_mem_var2\<close>); \<open>only_const_variant\<close>
  says that none of them takes an instance by mutable reference.
\<close>

fun mutable_ref :: "ty \<Rightarrow> bool" where
  "mutable_ref (Ref (Const t)) = False"
| "mutable_ref (Ref t) = True"
| "mutable_ref t = False"

definition by_mutable_ref :: "functor_class \<Rightarrow> bool" where
  "by_mutable_ref c =
     (case class_sig c of None \<Rightarrow> False | Some s \<Rightarrow> list_ex mutable_ref (op_params s))"

definition member2_adaptors :: "functor_class \<Rightarrow> ty \<Rightarrow> ty \<Rightarrow> functor_class list" where
  "member2_adaptors BinaryFunction T VT =
     [Mem_var2_t BinaryFunction T VT, Const_mem_var2_t BinaryFunction T VT]"

definition only_const_variant :: "functor_class \<Rightarrow> ty \<Rightarrow> ty \<Rightarrow> bool" where
  "only_const_variant BinaryFunction T VT =
     list_all (\<lambda>c. \<not> by_mutable_ref c) (member2_adaptors BinaryFunction T VT)"

text \<open>That a result is neither of the two operands.\<close>

definition differs_from_operands :: "'a \<Rightarrow> 'a \<Rightarrow> 'a \<Rightarrow> bool" where
  "differs_from_operands r a b = (r \<noteq> a \<and> r \<noteq> b)"

section \<open>Properties\<close>

lemmas adaptor_defs =
  functor1_call_def functor2_call_def functor_1_def functor_2_def
  unary_negate_call_def unary_negator_def
  binder1st_call_def binder2nd_call_def bind1st_def bind2nd_def
  mem_var1_t_call_def const_mem_var1_t_call_def mem_var2_t_call_def const_mem_var2_t_call_def
  mem_var1_def const_mem_var1_def mem_var2_def const_mem_var2_def

lemmas sig_defs = binary_functor_def unary_functor_def MEM_FUN_T_def EXT_MEM_FUN_T_def const_ref_def



lemma class_sig_op_const: "class_sig c = Some s \<Longrightarrow> op_const s"
  by (induction c arbitrary: s)
     (auto simp: sig_defs split: option.splits prod.splits)

text \<open>
  C1. Member accessor laws: the one-argument adaptors built by \<open>mem_var1\<close> and
  \<open>const_mem_var1\<close> applied to an instance return \<open>f\<close> of its member, and the
  two-argument adaptors built by \<open>mem_var2\<close> and \<open>const_mem_var2\<close> applied to two
  instances return \<open>f\<close> of the member of the first and the member of the second.
\<close>

theorem member_accessor_laws:
  "mem_var1_t_call (mem_var1 m f) obj = f (m obj)
   \<and> const_mem_var1_t_call (const_mem_var1 m f) obj = f (m obj)
   \<and> mem_var2_t_call (mem_var2 m g) x y = g (m x) (m y)
   \<and> const_mem_var2_t_call (const_mem_var2 m g) x y = g (m x) (m y)"
  by (simp add: mem_var1_t_call_def mem_var1_def const_mem_var1_t_call_def const_mem_var1_def
      mem_var2_t_call_def mem_var2_def const_mem_var2_t_call_def const_mem_var2_def)


text \<open>
  C2. The convenience compositions are the compositions the specification names
  (\<open>member1\<close> over \<open>bind_second\<close> of \<open>equal_to\<close> or \<open>less\<close>, \<open>member2\<close> over \<open>equal_to\<close> or
  \<open>less\<close>); called, they compare the member with the fixed value, or the members of two
  instances; and on \<open>p1 = {3,5}\<close>, \<open>p2 = {3,7}\<close> the three calls of the scenario are true.
\<close>

theorem convenience_compositions:
  "mem_var_equal_to eq m v = member_equal_to_spec eq m v
   \<and> mem_var_less lt m v = member_less_spec lt m v
   \<and> mem_var_equal_to_2 eq m = member_equal_to_2_spec eq m
   \<and> mem_var_less_2 lt m = member_less_2_spec lt m
   \<and> const_mem_var1_t_call (mem_var_equal_to eq m v) obj = eq (m obj) v
   \<and> const_mem_var1_t_call (mem_var_less lt m v) obj = lt (m obj) v
   \<and> const_mem_var2_t_call (mem_var_equal_to_2 eq m) a b = eq (m a) (m b)
   \<and> const_mem_var2_t_call (mem_var_less_2 lt m) a b = lt (m a) (m b)
   \<and> const_mem_var1_t_call (mem_var_equal_to (=) Point_x 3) p1 = True
   \<and> const_mem_var2_t_call (mem_var_less_2 (<s) Point_y) p1 p2 = True
   \<and> const_mem_var2_t_call (mem_var_equal_to_2 (=) Point_x) p1 p2 = True"
  by (simp add: mem_var_equal_to_def mem_var_less_def mem_var_equal_to_2_def mem_var_less_2_def
      member_equal_to_spec_def member_less_spec_def member_equal_to_2_spec_def
      member_less_2_spec_def adaptor_defs equal_to_def less_f_def p1_def p2_def)

text \<open>
  C3. The comparator family over a type with only \<open><\<close> and \<open>==\<close>: each functor is the
  stated combination of the two operators it is given, for arbitrary operators (no
  order laws are assumed, so \<open>greater_equal\<close> is not \<open>\<not> a < b\<close>), and
  \<open>compare\<close> yields -1 when \<open>a < b\<close>, else 0 when \<open>a == b\<close>, else 1.
\<close>

theorem comparator_family:
  "less_f lt a b = lt a b
   \<and> greater_f lt a b = lt b a
   \<and> equal_to eq a b = eq a b
   \<and> not_equal_to eq a b = (\<not> eq a b)
   \<and> greater_equal lt eq a b = (lt b a \<or> eq a b)
   \<and> less_equal lt eq a b = (lt a b \<or> eq a b)
   \<and> sint (compare lt eq a b) = (if lt a b then - 1 else if eq a b then 0 else 1)"
  by (simp add: less_f_def greater_f_def equal_to_def not_equal_to_def
      greater_equal_def less_equal_def compare_def)

text \<open>
  C4. The signature tag invariant at the classes the claim names. \<open>mem_var2_t\<close>
  (here over \<open>less<int>\<close> and \<open>Point\<close>) inherits \<open>unary_function\<close> while its
  \<open>operator()\<close> takes two instances, so the invariant fails, and a binder over it finds
  no \<open>first_argument_type\<close>; its sibling \<open>const_mem_var2_t\<close> inherits
  \<open>binary_function\<close> and satisfies it. The four classes of \<open>EXT_MEM_FUN_T\<close> declare the
  result type \<open>void\<close> while \<open>operator()\<close> returns \<open>Ret\<close> (here \<open>bool\<close>), so the
  invariant fails, while the classes of \<open>MEM_FUN_T\<close> declare \<open>Ret\<close> and satisfy it.
\<close>

theorem signature_tag_mismatch:
  "class_sig (Mem_var2_t (Less T_int) (Named ''Point'') T_int)
     = Some \<lparr>tag = unary_function (Ref (Named ''Point'')) T_bool,
             op_params = [Ref (Named ''Point''), Ref (Named ''Point'')],
             op_result = T_bool, op_const = True\<rparr>
   \<and> map_option tag_matches_call (class_sig (Mem_var2_t (Less T_int) (Named ''Point'') T_int))
       = Some False
   \<and> map_option tag_matches_call (class_sig (Const_mem_var2_t (Less T_int) (Named ''Point'') T_int))
       = Some True
   \<and> class_sig (Binder2nd (Mem_var2_t (Less T_int) (Named ''Point'') T_int)) = None
   \<and> class_sig (Ext_mem_funbv_t (Named ''Host'') T_bool T_int)
     = Some \<lparr>tag = unary_function T_int T_void, op_params = [T_int],
             op_result = T_bool, op_const = True\<rparr>
   \<and> map_option tag_matches_call (class_sig (Ext_mem_fun_t (Named ''Host'') T_bool T_int))
       = Some False
   \<and> map_option tag_matches_call (class_sig (Ext_mem_funbv_t (Named ''Host'') T_bool T_int))
       = Some False
   \<and> map_option tag_matches_call (class_sig (Const_ext_mem_fun_t (Named ''Host'') T_bool T_int))
       = Some False
   \<and> map_option tag_matches_call (class_sig (Const_ext_mem_funbv_t (Named ''Host'') T_bool T_int))
       = Some False
   \<and> map_option tag_matches_call (class_sig (Mem_fun_t T_bool (Named ''Host''))) = Some True"
  by (simp add: sig_defs tag_matches_call_def passes_def)

text \<open>
  C5, as stated: of the two-argument member adaptors only a \<open>const\<close> variant exists.
  It fails: \<open>mem_var2_t\<close> takes its two instances by reference to non-\<open>const\<close>.
\<close>

theorem only_const_member2_counterexample:
  "\<not> only_const_variant (Less T_int) (Named ''Point'') T_int"
  by (simp add: only_const_variant_def member2_adaptors_def by_mutable_ref_def sig_defs)

text \<open>
  C5, amended: the two-argument member adaptor comes in both variants. \<open>mem_var2_t\<close>
  (built by \<open>mem_var2\<close>) takes its two instances by mutable reference,
  \<open>const_mem_var2_t\<close> (built by \<open>const_mem_var2\<close>) by reference to \<open>const\<close>, and both
  return \<open>f\<close> of the two members.
\<close>

theorem member2_both_variants:
  assumes "class_sig BinaryFunction = Some s"
  shows "map_option op_params (class_sig (Mem_var2_t BinaryFunction (Named T) VT))
       = Some [Ref (Named T), Ref (Named T)]
   \<and> map_option op_params (class_sig (Const_mem_var2_t BinaryFunction (Named T) VT))
       = Some [Ref (Const (Named T)), Ref (Const (Named T))]
   \<and> by_mutable_ref (Mem_var2_t BinaryFunction (Named T) VT)
   \<and> \<not> by_mutable_ref (Const_mem_var2_t BinaryFunction (Named T) VT)
   \<and> mem_var2_t_call (mem_var2 m f) a b = f (m a) (m b)
   \<and> const_mem_var2_t_call (const_mem_var2 m f) a b = f (m a) (m b)"
  using assms
  by (simp add: by_mutable_ref_def sig_defs adaptor_defs)

theorem member2_both_variants_witness:
  "class_sig (Less T_int) = Some (binary_functor T_int T_bool)
   \<and> by_mutable_ref (Mem_var2_t (Less T_int) (Named ''Point'') T_int)
   \<and> \<not> by_mutable_ref (Const_mem_var2_t (Less T_int) (Named ''Point'') T_int)
   \<and> mem_var2_t_call (mem_var2 Point_y (less_f (<s))) p1 p2 = True
   \<and> const_mem_var2_t_call (const_mem_var2 Point_y (less_f (<s))) p1 p2 = True"
proof -
  have a: "class_sig (Less T_int) = Some (binary_functor T_int T_bool)"
    by simp
  show ?thesis
    using member2_both_variants [OF a, of "''Point''" T_int Point_y "less_f (<s)" p1 p2] a
    by (simp add: less_f_def p1_def p2_def)
qed

text \<open>
  C6. Binder laws: \<open>bind1st (f, v)\<close> called with \<open>x\<close> returns \<open>f (v, x)\<close>, and
  \<open>bind2nd (f, w)\<close> called with \<open>y\<close> returns \<open>f (y, w)\<close>; the binder over a functor
  class that declares \<open>binary_function<arg1, arg2, res>\<close> declares
  \<open>unary_function\<close> of the argument type that is not bound and of \<open>res\<close>.
\<close>

theorem binder_laws:
  assumes "class_sig BinaryFunction = Some s"
    and "tag s = binary_function arg1 arg2 res"
  shows "binder1st_call (bind1st f v) x = f v x
   \<and> binder2nd_call (bind2nd f w) y = f y w
   \<and> map_option tag (class_sig (Binder1st BinaryFunction)) = Some (unary_function arg2 res)
   \<and> map_option tag (class_sig (Binder2nd BinaryFunction)) = Some (unary_function arg1 res)"
  using assms by (simp add: adaptor_defs)

theorem binder_laws_witness:
  "class_sig (Compare (Named ''Point'')) = Some (binary_functor (Named ''Point'') T_int)
   \<and> tag (binary_functor (Named ''Point'') T_int)
       = binary_function (Named ''Point'') (Named ''Point'') T_int
   \<and> binder1st_call (bind1st (less_f (<s)) (3 :: cint)) 5 = True
   \<and> binder2nd_call (bind2nd (less_f (<s)) (3 :: cint)) 5 = False
   \<and> map_option tag (class_sig (Binder1st (Compare (Named ''Point''))))
       = Some (unary_function (Named ''Point'') T_int)
   \<and> map_option tag (class_sig (Binder2nd (Compare (Named ''Point''))))
       = Some (unary_function (Named ''Point'') T_int)"
proof -
  have a: "class_sig (Compare (Named ''Point'')) = Some (binary_functor (Named ''Point'') T_int)"
    by simp
  have b: "tag (binary_functor (Named ''Point'') T_int)
       = binary_function (Named ''Point'') (Named ''Point'') T_int"
    by (simp add: binary_functor_def)
  show ?thesis
    using binder_laws [OF a b, of "less_f (<s)" "3 :: cint" 5 3 5] a b
    by (simp add: less_f_def)
qed

text \<open>
  C7. Negator law: \<open>unary_negator (f)\<close> called with \<open>x\<close> returns the negation of
  \<open>f (x)\<close>, for \<open>f\<close> returning \<open>bool\<close>; over a functor class that declares
  \<open>unary_function<arg, res>\<close> the negator declares the same argument and result types.
\<close>

theorem negator_law:
  assumes "class_sig UnaryFunction = Some s"
    and "tag s = unary_function arg res"
  shows "unary_negate_call (unary_negator f) x = (\<not> f x)
   \<and> map_option tag (class_sig (Unary_negate UnaryFunction)) = Some (unary_function arg res)"
proof -
  have "member_argument_type UnaryFunction (tag s) = Some arg"
    using assms by (cases UnaryFunction) (auto simp: member_argument_type_def split: option.splits)
  then show ?thesis
    using assms by (simp add: adaptor_defs)
qed

theorem negator_law_witness:
  "class_sig (Logical_not T_bool) = Some (unary_functor T_bool T_bool)
   \<and> tag (unary_functor T_bool T_bool) = unary_function T_bool T_bool
   \<and> unary_negate_call (unary_negator (\<lambda>n :: cint. n = 0)) 5 = True
   \<and> map_option tag (class_sig (Unary_negate (Logical_not T_bool)))
       = Some (unary_function T_bool T_bool)"
proof -
  have a: "class_sig (Logical_not T_bool) = Some (unary_functor T_bool T_bool)"
    by simp
  have b: "tag (unary_functor T_bool T_bool) = unary_function T_bool T_bool"
    by (simp add: unary_functor_def)
  show ?thesis
    using negator_law [OF a b, of "\<lambda>n :: cint. n = 0" 5] a b by simp
qed

text \<open>
  C8. Function pointer wrapping: the functor made from a pointer to a function of one
  argument, or of two, returns what the function returns; wrapping \<open>square\<close> and
  calling it with 4 returns 16.
\<close>

theorem function_pointer_wrapping:
  "functor1_call (functor_1 pfn) x = pfn x
   \<and> functor2_call (functor_2 pfn2) x y = pfn2 x y
   \<and> functor1_call (functor_1 square) 4 = 16"
  by (simp add: adaptor_defs square_def)



text \<open>
  The scenario of the specification: the method adaptor over \<open>isEven\<close>, applied to a
  pointer to an instance with an odd value, returns false, and the negator over that
  adaptor returns true; the store is left as it was.
\<close>

lemma method_adaptor_scenario:
  "const_mem_fun_t_invoke 0
       \<lparr>object = mem_fun_c Counter_isEven, world = Map.empty(0 \<mapsto> \<lparr>Counter_n = 3\<rparr>)\<rparr>
     = Inr (False,
            \<lparr>object = mem_fun_c Counter_isEven, world = Map.empty(0 \<mapsto> \<lparr>Counter_n = 3\<rparr>)\<rparr>)
   \<and> unary_negate_invoke 0
       \<lparr>object = unary_negator (callable_of const_mem_fun_t_invoke (mem_fun_c Counter_isEven)),
        world = Map.empty(0 \<mapsto> \<lparr>Counter_n = 3\<rparr>)\<rparr>
     = Inr (True,
            \<lparr>object = unary_negator (callable_of const_mem_fun_t_invoke (mem_fun_c Counter_isEven)),
             world = Map.empty(0 \<mapsto> \<lparr>Counter_n = 3\<rparr>)\<rparr>)"
  by (simp add: const_mem_fun_t_invoke_def unary_negate_invoke_def unary_negator_def
      callable_of_def mem_fun_c_def Counter_isEven_def)



text \<open>
  C10, as stated: the result of \<open>logical_and\<close> and \<open>logical_or\<close> is never one of the
  operand values. It fails where an operand is itself the 0 or 1 returned.
\<close>

theorem logical_result_counterexample:
  "\<not> differs_from_operands (logical_and (1 :: cint) 1) 1 1
   \<and> \<not> differs_from_operands (logical_or (0 :: cint) 0) 0 0"
  by (simp add: differs_from_operands_def logical_and_def logical_or_def)

text \<open>
  C10, amended: on an integral type \<open>logical_and\<close> returns 1 when both operands are
  nonzero and 0 otherwise, \<open>logical_or\<close> returns 1 when an operand is nonzero and 0
  otherwise; so the result differs from every operand that is neither 0 nor 1.
\<close>

theorem logical_normalised:
  "logical_and a b = (if a \<noteq> 0 \<and> b \<noteq> 0 then 1 else 0)
   \<and> logical_or a b = (if a \<noteq> 0 \<or> b \<noteq> 0 then 1 else 0)
   \<and> (a \<noteq> 0 \<and> a \<noteq> 1 \<longrightarrow> logical_and a b \<noteq> a \<and> logical_or a b \<noteq> a)
   \<and> (b \<noteq> 0 \<and> b \<noteq> 1 \<longrightarrow> logical_and a b \<noteq> b \<and> logical_or a b \<noteq> b)"
  by (auto simp add: logical_and_def logical_or_def)

theorem logical_normalised_witness:
  "(2 :: cint) \<noteq> 0 \<and> (2 :: cint) \<noteq> 1 \<and> (3 :: cint) \<noteq> 0 \<and> (3 :: cint) \<noteq> 1
   \<and> logical_and (2 :: cint) 3 = 1 \<and> logical_or (2 :: cint) 3 = 1
   \<and> differs_from_operands (logical_and (2 :: cint) 3) 2 3
   \<and> differs_from_operands (logical_or (2 :: cint) 3) 2 3"
  using logical_normalised [of "2 :: cint" 3]
  by (simp add: differs_from_operands_def)

end
